theory Spec2Isabelle
  imports Main "HOL-Library.Word"
begin

section \<open>Values of the dashboard script\<close>

text \<open>
  The script \<^verbatim>\<open>streamlit_insurance_app.py\<close> is dynamically typed. A number held by a
  widget or a table cell is a Python \<^verbatim>\<open>int\<close> (unbounded) or a Python \<^verbatim>\<open>float\<close>; a float
  is kept as its 64-bit pattern, since the script never computes with it: it only
  stores it, passes it on and formats it. A Python \<^verbatim>\<open>str\<close> is a \<^typ>\<open>string\<close> (its UTF-8
  bytes; comparing with an ASCII literal is the same on both).
\<close>

type_synonym float64 = "64 word"

datatype pynum = PyInt int | PyFloat float64

text \<open>
  A \<^verbatim>\<open>pandas.DataFrame\<close> built from a dict of lists: the columns in the order of the
  dict's keys, each with its list of cells.
\<close>

type_synonym dataframe = "(string \<times> pynum list) list"

definition columns :: "dataframe \<Rightarrow> string list" where
  "columns df = map fst df"

definition column :: "dataframe \<Rightarrow> string \<Rightarrow> pynum list option" where
  "column df name = map_of df name"

section \<open>The Predict page's form and the one-hot encoding\<close>

text \<open>
  The six values the widgets of the Predict page return (lines 94 to 103): three
  \<^verbatim>\<open>st.number_input\<close> and three \<^verbatim>\<open>st.selectbox\<close>.
\<close>

record request =
  age :: pynum
  bmi :: pynum
  children :: pynum
  smoker :: string
  sex :: string
  region :: string

text \<open>The option lists of the three select boxes, as the source writes them.\<close>

definition smoker_options :: "string list" where
  "smoker_options = [''yes'', ''no'']"

definition sex_options :: "string list" where
  "sex_options = [''male'', ''female'']"

definition region_options :: "string list" where
  "region_options = [''northwest'', ''southeast'', ''southwest'']"

text \<open>The bounds given to the three number inputs (minimum, maximum).\<close>

definition age_bounds :: "pynum \<times> pynum" where
  "age_bounds = (PyInt 0, PyInt 100)"

definition bmi_bounds :: "pynum \<times> pynum" where
  "bmi_bounds = (PyFloat 0, PyFloat 0x4054000000000000)"

definition children_bounds :: "pynum \<times> pynum" where
  "children_bounds = (PyInt 0, PyInt 10)"

text \<open>
  Lines 106 to 115: \<^verbatim>\<open>input_df = pd.DataFrame({...})\<close>, eight one-row columns. A flag
  is the Python conditional expression \<^verbatim>\<open>1 if x == "lit" else 0\<close>.
\<close>

definition flag :: "bool \<Rightarrow> pynum" where
  "flag b = (if b then PyInt 1 else PyInt 0)"

definition input_df :: "request \<Rightarrow> dataframe" where
  "input_df r =
     [(''age'', [age r]),
      (''bmi'', [bmi r]),
      (''children'', [children r]),
      (''smoker'', [flag (smoker r = ''yes'')]),
      (''sex_male'', [flag (sex r = ''male'')]),
      (''region_northwest'', [flag (region r = ''northwest'')]),
      (''region_southeast'', [flag (region r = ''southeast'')]),
      (''region_southwest'', [flag (region r = ''southwest'')])]"

text \<open>The three region columns of a table, read together.\<close>

definition region_flags :: "dataframe \<Rightarrow> pynum list option \<times> pynum list option \<times> pynum list option" where
  "region_flags df =
     (column df ''region_northwest'', column df ''region_southeast'', column df ''region_southwest'')"

text \<open>How many of the three region columns hold the single cell 1.\<close>

definition region_ones :: "dataframe \<Rightarrow> nat" where
  "region_ones df =
     length (filter (\<lambda>name. column df name = Some [PyInt 1])
       [''region_northwest'', ''region_southeast'', ''region_southwest''])"

section \<open>The world outside the script\<close>

text \<open>
  Every exception is a value. The script names no exception class: its two handlers are
  bare \<^verbatim>\<open>except:\<close> clauses, which catch whatever is raised.
\<close>

datatype py_error =
    IndexError
  | FileNotFoundError
  | ParserError
  | ValueError
  | OtherError string

text \<open>What \<^verbatim>\<open>json.load\<close> returns, and Python's truth value of it (line 67).\<close>

datatype json =
    JNull
  | JBool bool
  | JNum pynum
  | JStr string
  | JList "json list"
  | JDict "(string \<times> json) list"

fun truthy :: "json \<Rightarrow> bool" where
  "truthy JNull = False"
| "truthy (JBool b) = b"
| "truthy (JNum (PyInt i)) = (i \<noteq> 0)"
| "truthy (JNum (PyFloat w)) = (w \<noteq> 0 \<and> w \<noteq> 0x8000000000000000)"
| "truthy (JStr s) = (s \<noteq> [])"
| "truthy (JList xs) = (xs \<noteq> [])"
| "truthy (JDict kvs) = (kvs \<noteq> [])"

text \<open>
  The libraries and the file system, as the script sees them in one run. Each field is
  what the library call of that name returns or raises: \<^verbatim>\<open>joblib.load\<close>,
  \<^verbatim>\<open>model.predict\<close>, the format specification \<^verbatim>\<open>:.2f\<close>, \<^verbatim>\<open>open\<close> followed by
  \<^verbatim>\<open>json.load\<close>, \<^verbatim>\<open>pd.read_csv\<close>, and \<^verbatim>\<open>px.scatter\<close> and \<^verbatim>\<open>px.box\<close> with their
  \<^verbatim>\<open>x\<close>, \<^verbatim>\<open>y\<close>, \<^verbatim>\<open>color\<close> and \<^verbatim>\<open>title\<close> arguments. \<^typ>\<open>'m\<close> is the model object,
  \<^typ>\<open>'t\<close> a table read from CSV, \<^typ>\<open>'g\<close> a Plotly figure. The last field is
  \<^verbatim>\<open>st_lottie\<close> of the package \<^verbatim>\<open>streamlit_lottie\<close>, with the animation and the
  height: it rejects a value it cannot play by raising. These are the script's
  collaborators and are left arbitrary; the rendering calls of Streamlit itself
  (\<^verbatim>\<open>st.markdown\<close>, \<^verbatim>\<open>st.error\<close> and the like) are taken to return.
\<close>

record ('m, 't, 'g) env =
  joblib_load :: "string \<Rightarrow> py_error + 'm"
  model_predict :: "'m \<Rightarrow> dataframe \<Rightarrow> py_error + float64 list"
  format_2f :: "float64 \<Rightarrow> string"
  json_load :: "string \<Rightarrow> py_error + json"
  read_csv :: "string \<Rightarrow> py_error + 't"
  px_scatter :: "'t \<Rightarrow> string \<Rightarrow> string \<Rightarrow> string \<Rightarrow> string \<Rightarrow> py_error + 'g"
  px_box :: "'t \<Rightarrow> string \<Rightarrow> string \<Rightarrow> string \<Rightarrow> py_error + 'g"
  st_lottie :: "json \<Rightarrow> nat \<Rightarrow> py_error + unit"

text \<open>
  What the browser session hands to one run of the script: the page chosen in the
  sidebar (line 43), the six values of the form, whether the Predict button was
  pressed (line 117), and the uploaded file if there is one (line 166), given as what
  \<^verbatim>\<open>pd.read_csv\<close> makes of it.
\<close>

datatype menu = Home | Predict | Analytics | Upload

record 't ui =
  menu :: menu
  form :: request
  button :: bool
  uploaded :: "(py_error + 't) option"

text \<open>
  What a run puts on the page, in order. The \<^verbatim>\<open>st.markdown\<close> calls are told apart by
  the CSS class of the block they write. Texts are given without their emoji (and
  without the space after a leading one), and the non-breaking hyphen of the box
  plot's title is written as a plain one.
\<close>

datatype ('t, 'g) element =
    PageConfig string
  | Style
  | SidebarRadio string
  | Title string
  | Subtitle string
  | ResultCard string
  | Footer string
  | Lottie json nat
  | Info string
  | Error string
  | Success string
  | Write string
  | Subheader string
  | Columns nat
  | NumberInput string pynum pynum
  | Selectbox string "string list"
  | Button string
  | Tabs "string list"
  | PlotlyChart 'g
  | FileUploader string string
  | Dataframe 't

section \<open>Loading the model\<close>

text \<open>
  The state that outlives a run: the entry of Streamlit's resource cache for
  \<^verbatim>\<open>load_model\<close>, and how many times the artifact has been read from storage.
\<close>

record 'm proc =
  cache :: "'m option"
  artifact_reads :: nat

definition process_start :: "'m proc" where
  "process_start = \<lparr>cache = None, artifact_reads = 0\<rparr>"

text \<open>
  Modelled from the spec: the decorator \<^verbatim>\<open>@st.cache_resource\<close> (line 11) is Streamlit's and
  not part of the source. The spec says of it that the model handle "is loaded lazily on
  first access and memoized for the remainder of the process lifetime", so that "repeated
  predictions do not re-read the artifact from storage": a call finds the cached handle
  and returns it, or runs the body of \<^verbatim>\<open>load_model\<close> (line 13) and caches what it
  returns. A body that raises caches nothing.
\<close>

definition load_model :: "('m, 't, 'g) env \<Rightarrow> 'm proc \<Rightarrow> (py_error + 'm) \<times> 'm proc" where
  "load_model e p =
     (case cache p of
        Some m \<Rightarrow> (Inr m, p)
      | None \<Rightarrow>
          (case joblib_load e ''optimized_random_forest_model.joblib'' of
             Inl err \<Rightarrow> (Inl err, p\<lparr>artifact_reads := artifact_reads p + 1\<rparr>)
           | Inr m \<Rightarrow> (Inr m, p\<lparr>cache := Some m, artifact_reads := artifact_reads p + 1\<rparr>)))"

section \<open>The pages\<close>

text \<open>
  A page gives back the exception that escaped it, if any, and what it rendered up to
  there.
\<close>

type_synonym ('t, 'g) page = "py_error option \<times> ('t, 'g) element list"

text \<open>
  Lines 62 to 80, with \<^verbatim>\<open>animation\<close> from lines 48 to 57. The call of
  \<^verbatim>\<open>st_lottie\<close> on line 68 is in no \<^verbatim>\<open>try\<close>: what it raises leaves the page after
  the two headings. The feature list of lines 74 to 80 is one \<^verbatim>\<open>st.write\<close>, its text
  shortened here.
\<close>

definition load_animation :: "('m, 't, 'g) env \<Rightarrow> json option" where
  "load_animation e =
     (case json_load e ''animation.json'' of Inl err \<Rightarrow> None | Inr j \<Rightarrow> Some j)"

definition home_page :: "('m, 't, 'g) env \<Rightarrow> json option \<Rightarrow> ('t, 'g) page" where
  "home_page e animation =
     (let heading =
            [Title ''Insurance Cost Prediction App'',
             Subtitle ''A modern ML-powered tool to estimate medical insurance charges''];
          info = Info ''Animation file not found. Add animation.json for animated graphics.'';
          features = [Write ''---'', Subheader ''Features'', Write ''features'']
      in case animation of
           None \<Rightarrow> (None, heading @ [info] @ features)
         | Some j \<Rightarrow>
             if truthy j then
               (case st_lottie e j 300 of
                  Inl err \<Rightarrow> (Some err, heading)
                | Inr shown \<Rightarrow> (None, heading @ [Lottie j 300] @ features))
             else (None, heading @ [info] @ features))"

text \<open>Lines 88 to 103: the widgets of the Predict page.\<close>

definition predict_form :: "('t, 'g) element list" where
  "predict_form =
     [Title ''Insurance Charge Prediction'',
      Subtitle ''Fill the details below'',
      Columns 3,
      NumberInput ''Age'' (fst age_bounds) (snd age_bounds),
      NumberInput ''BMI'' (fst bmi_bounds) (snd bmi_bounds),
      NumberInput ''Children'' (fst children_bounds) (snd children_bounds),
      Selectbox ''Smoker'' smoker_options,
      Selectbox ''Sex'' sex_options,
      Selectbox ''Region'' region_options]"

text \<open>
  Line 118: \<^verbatim>\<open>prediction = model.predict(input_df)[0]\<close>. Indexing an empty output
  raises.
\<close>

definition predict_one ::
  "('m \<Rightarrow> dataframe \<Rightarrow> py_error + float64 list) \<Rightarrow> 'm \<Rightarrow> dataframe \<Rightarrow> py_error + float64" where
  "predict_one mp m df =
     (case mp m df of
        Inl err \<Rightarrow> Inl err
      | Inr ys \<Rightarrow> (case ys of [] \<Rightarrow> Inl IndexError | y # _ \<Rightarrow> Inr y))"

text \<open>
  Lines 86 to 127. Besides the page, the result keeps the two variables the page binds:
  \<^verbatim>\<open>input_df\<close>, and \<^verbatim>\<open>prediction\<close> where line 118 was reached and returned.
\<close>

record ('t, 'g) predict_result =
  pr_uncaught :: "py_error option"
  pr_out :: "('t, 'g) element list"
  pr_input_df :: dataframe
  pr_prediction :: "float64 option"

definition predict_page :: "('m, 't, 'g) env \<Rightarrow> 'm \<Rightarrow> 't ui \<Rightarrow> ('t, 'g) predict_result" where
  "predict_page e model u =
     (let df = input_df (form u);
          shown = predict_form @ [Button ''Predict'']
      in if button u then
           (case predict_one (model_predict e) model df of
              Inl err \<Rightarrow>
                \<lparr>pr_uncaught = Some err, pr_out = shown, pr_input_df = df, pr_prediction = None\<rparr>
            | Inr prediction \<Rightarrow>
                \<lparr>pr_uncaught = None,
                 pr_out = shown @ [ResultCard (format_2f e prediction)],
                 pr_input_df = df,
                 pr_prediction = Some prediction\<rparr>)
         else \<lparr>pr_uncaught = None, pr_out = shown, pr_input_df = df, pr_prediction = None\<rparr>)"

text \<open>
  Lines 138 to 155, the body of the \<^verbatim>\<open>try\<close>: it stops at the first call that raises,
  and what was rendered before stays on the page.
\<close>

definition analytics_try :: "('m, 't, 'g) env \<Rightarrow> ('t, 'g) page" where
  "analytics_try e =
     (case read_csv e ''insurance.csv'' of
        Inl err \<Rightarrow> (Some err, [])
      | Inr df \<Rightarrow>
          (let tabs = [Tabs [''Age vs Charges'', ''BMI vs Charges'', ''Smoker Impact'']] in
           case px_scatter e df ''age'' ''charges'' ''sex'' ''Age vs Charges'' of
             Inl err \<Rightarrow> (Some err, tabs)
           | Inr fig1 \<Rightarrow>
               (case px_scatter e df ''bmi'' ''charges'' ''smoker'' ''BMI vs Charges'' of
                  Inl err \<Rightarrow> (Some err, tabs @ [PlotlyChart fig1])
                | Inr fig2 \<Rightarrow>
                    (case px_box e df ''smoker'' ''charges'' ''Smoker vs Non-Smoker Charges'' of
                       Inl err \<Rightarrow> (Some err, tabs @ [PlotlyChart fig1, PlotlyChart fig2])
                     | Inr fig3 \<Rightarrow>
                         (None, tabs @ [PlotlyChart fig1, PlotlyChart fig2, PlotlyChart fig3])))))"

text \<open>Lines 133 to 158: the title, the \<^verbatim>\<open>try\<close>, and the bare \<^verbatim>\<open>except:\<close>.\<close>

definition dataset_not_found :: string where
  "dataset_not_found = ''Dataset 'insurance.csv' not found. Upload it in the next tab.''"

definition analytics_page :: "('m, 't, 'g) env \<Rightarrow> ('t, 'g) page" where
  "analytics_page e =
     (case analytics_try e of
        (None, shown) \<Rightarrow> (None, Title ''Data Analytics'' # shown)
      | (Some err, shown) \<Rightarrow> (None, Title ''Data Analytics'' # shown @ [Error dataset_not_found]))"

text \<open>Lines 163 to 172. An uploaded file that does not parse raises out of the page.\<close>

definition upload_page :: "'t ui \<Rightarrow> ('t, 'g) page" where
  "upload_page u =
     (let shown = [Title ''Upload Your Dataset'', FileUploader ''Upload CSV'' ''csv''] in
      case uploaded u of
        None \<Rightarrow> (None, shown)
      | Some (Inl err) \<Rightarrow> (Some err, shown)
      | Some (Inr df) \<Rightarrow>
          (None, shown @ [Write ''### Preview'', Dataframe df, Success ''Dataset loaded successfully!'']))"

section \<open>One run of the script, and a session of runs\<close>

text \<open>
  What a run leaves: the global \<^verbatim>\<open>model\<close> (or the exception line 15 raised), the page,
  and the exception that ended the run, if one did.
\<close>

record ('m, 't, 'g) run =
  run_model :: "py_error + 'm"
  run_out :: "('t, 'g) element list"
  run_uncaught :: "py_error option"

text \<open>
  Lines 20 to 177, with \<^verbatim>\<open>model\<close> bound. Exactly one of the four page blocks matches
  the sidebar's choice; the footer is reached only if the page raised nothing. The
  artifact is not named here: the body works with \<^verbatim>\<open>model\<close> as line 15 bound it.
\<close>

definition script_body :: "('m, 't, 'g) env \<Rightarrow> 't ui \<Rightarrow> 'm \<Rightarrow> ('m, 't, 'g) run" where
  "script_body e u model =
     (let top = [PageConfig ''Insurance Charge Predictor'', Style, SidebarRadio ''Navigation''];
          animation = load_animation e;
          (raised, shown) =
            (case menu u of
               Home \<Rightarrow> home_page e animation
             | Predict \<Rightarrow>
                 (let r = predict_page e model u in (pr_uncaught r, pr_out r))
             | Analytics \<Rightarrow> analytics_page e
             | Upload \<Rightarrow> upload_page u)
      in case raised of
           None \<Rightarrow>
             \<lparr>run_model = Inr model,
              run_out = top @ shown @ [Footer ''Made with  using Streamlit''],
              run_uncaught = None\<rparr>
         | Some err \<Rightarrow>
             \<lparr>run_model = Inr model, run_out = top @ shown, run_uncaught = Some err\<rparr>)"

text \<open>Lines 11 to 177: line 15 first; an exception there ends the run before anything is shown.\<close>

definition script ::
  "('m, 't, 'g) env \<Rightarrow> 't ui \<Rightarrow> 'm proc \<Rightarrow> ('m, 't, 'g) run \<times> 'm proc" where
  "script e u p =
     (case load_model e p of
        (Inl err, p') \<Rightarrow> (\<lparr>run_model = Inl err, run_out = [], run_uncaught = Some err\<rparr>, p')
      | (Inr model, p') \<Rightarrow> (script_body e u model, p'))"

text \<open>
  The process reruns the script on every interaction; the files and the widgets may
  differ from one run to the next, the process state is handed on.
\<close>

fun session ::
  "(('m, 't, 'g) env \<times> 't ui) list \<Rightarrow> 'm proc \<Rightarrow> ('m, 't, 'g) run list \<times> 'm proc" where
  "session [] p = ([], p)"
| "session ((e, u) # rest) p =
     (case script e u p of
        (r, p') \<Rightarrow> (case session rest p' of (rs, p'') \<Rightarrow> (r # rs, p'')))"

section \<open>A concrete world\<close>

text \<open>
  One environment, one form and one browser state, to evaluate the definitions on: the
  artifact loads to the handle 7, whose scoring returns the single output 10000.0; the
  dataset and the animation are missing. The form is the spec's example request.
\<close>

definition example_env :: "(nat, nat, nat) env" where
  "example_env =
     \<lparr>joblib_load = (\<lambda>path. if path = ''optimized_random_forest_model.joblib'' then Inr 7
                             else Inl FileNotFoundError),
      model_predict = (\<lambda>m df. if m = 7 then Inr [0x40C3880000000000] else Inl ValueError),
      format_2f = (\<lambda>w. if w = 0x40C3880000000000 then ''10000.00'' else ''0.00''),
      json_load = (\<lambda>path. Inl FileNotFoundError),
      read_csv = (\<lambda>path. Inl FileNotFoundError),
      px_scatter = (\<lambda>t x y c title. Inr 0),
      px_box = (\<lambda>t x y title. Inr 1),
      st_lottie = (\<lambda>j height. case j of JDict kvs \<Rightarrow> Inr () | _ \<Rightarrow> Inl ValueError)\<rparr>"

definition example_request :: request where
  "example_request =
     \<lparr>age = PyInt 35, bmi = PyFloat 0x403B800000000000, children = PyInt 2,
      smoker = ''yes'', sex = ''female'', region = ''southeast''\<rparr>"

definition example_ui :: "nat ui" where
  "example_ui = \<lparr>menu = Predict, form = example_request, button = True, uploaded = None\<rparr>"

section \<open>The encoding of the categorical fields\<close>

lemma flag_one_iff: "flag b = PyInt 1 \<longleftrightarrow> b"
  by (simp add: flag_def)

lemma flag_zero_iff: "flag b = PyInt 0 \<longleftrightarrow> \<not> b"
  by (simp add: flag_def)

lemma region_flags_input_df:
  "region_flags (input_df r) =
     (Some [flag (region r = ''northwest'')],
      Some [flag (region r = ''southeast'')],
      Some [flag (region r = ''southwest'')])"
  by (simp add: region_flags_def column_def input_df_def)

text \<open>
  Claim C1. For each of the region strings northwest, southeast and southwest the
  encoding sets exactly the matching one of the three region columns to 1 and the
  other two to 0; for every other string (northeast, say) all three are 0.
\<close>

theorem region_one_hot:
  "(region r = ''northwest'' \<longrightarrow>
      region_flags (input_df r) = (Some [PyInt 1], Some [PyInt 0], Some [PyInt 0])) \<and>
   (region r = ''southeast'' \<longrightarrow>
      region_flags (input_df r) = (Some [PyInt 0], Some [PyInt 1], Some [PyInt 0])) \<and>
   (region r = ''southwest'' \<longrightarrow>
      region_flags (input_df r) = (Some [PyInt 0], Some [PyInt 0], Some [PyInt 1])) \<and>
   (region r \<notin> {''northwest'', ''southeast'', ''southwest''} \<longrightarrow>
      region_flags (input_df r) = (Some [PyInt 0], Some [PyInt 0], Some [PyInt 0]))"
  by (simp add: region_flags_input_df flag_def)

theorem region_one_hot_witness:
  "region_flags (input_df \<lparr>age = PyInt 35, bmi = PyFloat 0x403B800000000000, children = PyInt 2,
      smoker = ''yes'', sex = ''female'', region = ''northwest''\<rparr>)
     = (Some [PyInt 1], Some [PyInt 0], Some [PyInt 0]) \<and>
   region_flags (input_df \<lparr>age = PyInt 35, bmi = PyFloat 0x403B800000000000, children = PyInt 2,
      smoker = ''yes'', sex = ''female'', region = ''southeast''\<rparr>)
     = (Some [PyInt 0], Some [PyInt 1], Some [PyInt 0]) \<and>
   region_flags (input_df \<lparr>age = PyInt 35, bmi = PyFloat 0x403B800000000000, children = PyInt 2,
      smoker = ''yes'', sex = ''female'', region = ''southwest''\<rparr>)
     = (Some [PyInt 0], Some [PyInt 0], Some [PyInt 1]) \<and>
   region_flags (input_df \<lparr>age = PyInt 35, bmi = PyFloat 0x403B800000000000, children = PyInt 2,
      smoker = ''yes'', sex = ''female'', region = ''northeast''\<rparr>)
     = (Some [PyInt 0], Some [PyInt 0], Some [PyInt 0])"
  using
    region_one_hot [of "\<lparr>age = PyInt 35, bmi = PyFloat 0x403B800000000000, children = PyInt 2,
      smoker = ''yes'', sex = ''female'', region = ''northwest''\<rparr>"]
    region_one_hot [of "\<lparr>age = PyInt 35, bmi = PyFloat 0x403B800000000000, children = PyInt 2,
      smoker = ''yes'', sex = ''female'', region = ''southeast''\<rparr>"]
    region_one_hot [of "\<lparr>age = PyInt 35, bmi = PyFloat 0x403B800000000000, children = PyInt 2,
      smoker = ''yes'', sex = ''female'', region = ''southwest''\<rparr>"]
    region_one_hot [of "\<lparr>age = PyInt 35, bmi = PyFloat 0x403B800000000000, children = PyInt 2,
      smoker = ''yes'', sex = ''female'', region = ''northeast''\<rparr>"]
  by simp

text \<open>
  Claim C2. For every smoker string, the smoker column holds 1 exactly when the string
  is yes, and 0 for every other string (no among them).
\<close>

theorem smoker_flag_iff:
  "(column (input_df r) ''smoker'' = Some [PyInt 1] \<longleftrightarrow> smoker r = ''yes'') \<and>
   (column (input_df r) ''smoker'' = Some [PyInt 0] \<longleftrightarrow> smoker r \<noteq> ''yes'')"
  by (simp add: column_def input_df_def flag_def)

theorem smoker_flag_iff_witness:
  "column (input_df \<lparr>age = PyInt 35, bmi = PyFloat 0x403B800000000000, children = PyInt 2,
      smoker = ''yes'', sex = ''female'', region = ''southeast''\<rparr>) ''smoker'' = Some [PyInt 1] \<and>
   column (input_df \<lparr>age = PyInt 35, bmi = PyFloat 0x403B800000000000, children = PyInt 2,
      smoker = ''no'', sex = ''female'', region = ''southeast''\<rparr>) ''smoker'' = Some [PyInt 0]"
  using
    smoker_flag_iff [of "\<lparr>age = PyInt 35, bmi = PyFloat 0x403B800000000000, children = PyInt 2,
      smoker = ''yes'', sex = ''female'', region = ''southeast''\<rparr>"]
    smoker_flag_iff [of "\<lparr>age = PyInt 35, bmi = PyFloat 0x403B800000000000, children = PyInt 2,
      smoker = ''no'', sex = ''female'', region = ''southeast''\<rparr>"]
  by simp

text \<open>
  Claim C3. For every sex string, the sex_male column holds 1 exactly when the string
  is male, and 0 for every other string (female among them).
\<close>

theorem sex_male_flag_iff:
  "(column (input_df r) ''sex_male'' = Some [PyInt 1] \<longleftrightarrow> sex r = ''male'') \<and>
   (column (input_df r) ''sex_male'' = Some [PyInt 0] \<longleftrightarrow> sex r \<noteq> ''male'')"
  by (simp add: column_def input_df_def flag_def)

theorem sex_male_flag_iff_witness:
  "column (input_df \<lparr>age = PyInt 35, bmi = PyFloat 0x403B800000000000, children = PyInt 2,
      smoker = ''yes'', sex = ''male'', region = ''southeast''\<rparr>) ''sex_male'' = Some [PyInt 1] \<and>
   column (input_df \<lparr>age = PyInt 35, bmi = PyFloat 0x403B800000000000, children = PyInt 2,
      smoker = ''yes'', sex = ''female'', region = ''southeast''\<rparr>) ''sex_male'' = Some [PyInt 0]"
  using
    sex_male_flag_iff [of "\<lparr>age = PyInt 35, bmi = PyFloat 0x403B800000000000, children = PyInt 2,
      smoker = ''yes'', sex = ''male'', region = ''southeast''\<rparr>"]
    sex_male_flag_iff [of "\<lparr>age = PyInt 35, bmi = PyFloat 0x403B800000000000, children = PyInt 2,
      smoker = ''yes'', sex = ''female'', region = ''southeast''\<rparr>"]
  by simp

text \<open>
  Claim C4. The encoding copies age, bmi and children into the first three columns
  unchanged and checks no range: this holds for every number, integer or float, inside
  or outside the bounds the form's number inputs are given.
\<close>

theorem numeric_fields_pass_through:
  "take 3 (input_df r) = [(''age'', [age r]), (''bmi'', [bmi r]), (''children'', [children r])] \<and>
   column (input_df r) ''age'' = Some [age r] \<and>
   column (input_df r) ''bmi'' = Some [bmi r] \<and>
   column (input_df r) ''children'' = Some [children r]"
  by (simp add: column_def input_df_def)

section \<open>The prediction\<close>

lemma pr_input_df_predict_page: "pr_input_df (predict_page e model u) = input_df (form u)"
  by (simp add: predict_page_def Let_def split: sum.splits)

lemma columns_input_df:
  "columns (input_df r) =
     [''age'', ''bmi'', ''children'', ''smoker'', ''sex_male'',
      ''region_northwest'', ''region_southeast'', ''region_southwest'']"
  by (simp add: columns_def input_df_def)

lemma predict_one_first: "mp m df = Inr (y # ys) \<Longrightarrow> predict_one mp m df = Inr y"
  by (simp add: predict_one_def)

text \<open>
  Claim C5. The table handed to the model has the eight columns in the fixed order,
  one row each. For every table, where the model's scoring returns a non-empty output,
  line 118 returns its first element; on the page, with the button pressed, that
  element is the value of \<^verbatim>\<open>prediction\<close>, and the two-decimal formatting appears in the
  result card only: whatever the formatting is, \<^verbatim>\<open>prediction\<close> is the same.
\<close>

theorem predict_returns_first_output:
  "columns (input_df r) =
     [''age'', ''bmi'', ''children'', ''smoker'', ''sex_male'',
      ''region_northwest'', ''region_southeast'', ''region_southwest''] \<and>
   map (\<lambda>c. length (snd c)) (input_df r) = [1, 1, 1, 1, 1, 1, 1, 1] \<and>
   (mp model df = Inr (y # ys) \<longrightarrow> predict_one mp model df = Inr y) \<and>
   (button u \<and> model_predict e model (input_df (form u)) = Inr (y # ys) \<longrightarrow>
      predict_page e model u =
        \<lparr>pr_uncaught = None,
         pr_out = predict_form @ [Button ''Predict'', ResultCard (format_2f e y)],
         pr_input_df = input_df (form u),
         pr_prediction = Some y\<rparr>) \<and>
   pr_prediction (predict_page (e\<lparr>format_2f := f\<rparr>) model u) =
     pr_prediction (predict_page e model u)"
proof (intro conjI impI)
  show "columns (input_df r) =
     [''age'', ''bmi'', ''children'', ''smoker'', ''sex_male'',
      ''region_northwest'', ''region_southeast'', ''region_southwest'']"
    by (rule columns_input_df)
  show "map (\<lambda>c. length (snd c)) (input_df r) = [1, 1, 1, 1, 1, 1, 1, 1]"
    by (simp add: input_df_def)
  show "predict_one mp model df = Inr y" if "mp model df = Inr (y # ys)"
    using that by (rule predict_one_first)
  show "predict_page e model u =
        \<lparr>pr_uncaught = None,
         pr_out = predict_form @ [Button ''Predict'', ResultCard (format_2f e y)],
         pr_input_df = input_df (form u),
         pr_prediction = Some y\<rparr>"
    if "button u \<and> model_predict e model (input_df (form u)) = Inr (y # ys)"
    using that by (simp add: predict_page_def predict_one_def)
  show "pr_prediction (predict_page (e\<lparr>format_2f := f\<rparr>) model u) =
     pr_prediction (predict_page e model u)"
    by (simp add: predict_page_def Let_def split: sum.splits)
qed

theorem predict_returns_first_output_witness:
  "predict_page example_env 7 example_ui =
     \<lparr>pr_uncaught = None,
      pr_out = predict_form @ [Button ''Predict'', ResultCard ''10000.00''],
      pr_input_df = input_df example_request,
      pr_prediction = Some 0x40C3880000000000\<rparr>"
  using predict_returns_first_output [of example_request "model_predict example_env" 7
      "input_df example_request" "0x40C3880000000000" "[]" example_ui example_env
      "format_2f example_env"]
  by (simp add: example_env_def example_ui_def)

section \<open>The Analytics page\<close>

lemma analytics_page_caught: "fst (analytics_page e) = None"
  by (simp add: analytics_page_def split: prod.splits option.splits)

lemma analytics_page_missing:
  "read_csv e ''insurance.csv'' = Inl err \<Longrightarrow>
   analytics_page e = (None, [Title ''Data Analytics'', Error dataset_not_found])"
  by (simp add: analytics_page_def analytics_try_def)

lemma analytics_page_fallback:
  "fst (analytics_try e) = Some err \<Longrightarrow> last (snd (analytics_page e)) = Error dataset_not_found"
  by (cases "analytics_try e") (simp add: analytics_page_def)

text \<open>
  Claim C8. No exception escapes the Analytics page. When reading
  \<^verbatim>\<open>insurance.csv\<close> raises (the file is missing or does not parse), the page is its
  title followed by the error message; whenever anything in the \<^verbatim>\<open>try\<close> raises, the
  error message is the last thing on the page. The run goes on to the footer and ends
  without an exception.
\<close>

theorem analytics_never_raises:
  "fst (analytics_page e) = None \<and>
   (read_csv e ''insurance.csv'' = Inl err \<longrightarrow>
      analytics_page e = (None, [Title ''Data Analytics'', Error dataset_not_found])) \<and>
   (fst (analytics_try e) = Some err' \<longrightarrow>
      last (snd (analytics_page e)) = Error dataset_not_found) \<and>
   (menu u = Analytics \<longrightarrow>
      run_uncaught (script_body e u model) = None \<and>
      last (run_out (script_body e u model)) = Footer ''Made with  using Streamlit'')"
proof (intro conjI impI)
  show "fst (analytics_page e) = None"
    by (rule analytics_page_caught)
  show "analytics_page e = (None, [Title ''Data Analytics'', Error dataset_not_found])"
    if "read_csv e ''insurance.csv'' = Inl err"
    using that by (rule analytics_page_missing)
  show "last (snd (analytics_page e)) = Error dataset_not_found"
    if "fst (analytics_try e) = Some err'"
    using that by (rule analytics_page_fallback)
  obtain shown where page: "analytics_page e = (None, shown)"
    using analytics_page_caught [of e] by (cases "analytics_page e") simp
  show "run_uncaught (script_body e u model) = None" if "menu u = Analytics"
    using that page by (simp add: script_body_def)
  show "last (run_out (script_body e u model)) = Footer ''Made with  using Streamlit''"
    if "menu u = Analytics"
    using that page by (simp add: script_body_def)
qed

theorem analytics_never_raises_witness:
  "read_csv example_env ''insurance.csv'' = Inl FileNotFoundError \<and>
   analytics_page example_env = (None, [Title ''Data Analytics'', Error dataset_not_found]) \<and>
   run_uncaught (script_body example_env (example_ui\<lparr>menu := Analytics\<rparr>) 7) = None"
  using analytics_never_raises [of example_env FileNotFoundError FileNotFoundError
      "example_ui\<lparr>menu := Analytics\<rparr>" 7]
  by (simp add: example_env_def)

section \<open>The cached model\<close>

lemma load_model_cached: "cache p = Some m \<Longrightarrow> load_model e p = (Inr m, p)"
  by (simp add: load_model_def)

lemma script_cached: "cache p = Some m \<Longrightarrow> script e u p = (script_body e u m, p)"
  by (simp add: script_def load_model_cached)

lemma session_cached:
  "cache p = Some m \<Longrightarrow> session xs p = (map (\<lambda>(e, u). script_body e u m) xs, p)"
  by (induction xs) (auto simp: script_cached)

lemma script_first_load:
  "cache p = None \<Longrightarrow> joblib_load e ''optimized_random_forest_model.joblib'' = Inr m \<Longrightarrow>
   script e u p =
     (script_body e u m, p\<lparr>cache := Some m, artifact_reads := artifact_reads p + 1\<rparr>)"
  by (simp add: script_def load_model_def)

lemma home_page_artifact_irrelevant:
  "home_page (e\<lparr>joblib_load := j\<rparr>) animation = home_page e animation"
  by (simp add: home_page_def Let_def split: option.splits sum.splits)

lemma predict_page_artifact_irrelevant:
  "predict_page (e\<lparr>joblib_load := j\<rparr>) m u = predict_page e m u"
  by (simp add: predict_page_def Let_def split: sum.splits)

lemma analytics_page_artifact_irrelevant:
  "analytics_page (e\<lparr>joblib_load := j\<rparr>) = analytics_page e"
  by (simp add: analytics_page_def analytics_try_def Let_def split: sum.splits)

lemma script_body_artifact_irrelevant:
  "script_body (e\<lparr>joblib_load := j\<rparr>) u m = script_body e u m"
  by (cases "menu u")
    (simp_all add: script_body_def load_animation_def home_page_artifact_irrelevant
      predict_page_artifact_irrelevant analytics_page_artifact_irrelevant)

lemma script_body_predict_pressed:
  "menu u = Predict \<Longrightarrow> button u \<Longrightarrow> model_predict e m (input_df (form u)) = Inr (y # ys) \<Longrightarrow>
   script_body e u m =
     \<lparr>run_model = Inr m,
      run_out =
        [PageConfig ''Insurance Charge Predictor'', Style, SidebarRadio ''Navigation''] @
        predict_form @
        [Button ''Predict'', ResultCard (format_2f e y), Footer ''Made with  using Streamlit''],
      run_uncaught = None\<rparr>"
  by (simp add: script_body_def predict_page_def predict_one_def)

text \<open>
  Claim C9. From the run in which the artifact is first loaded, it is read once and
  never again: that run and every later run of the session, whatever its files and
  widgets, works with the handle that load returned, the cache keeps that handle, and
  the count of reads grows by one in all; from the start of the process, with a first
  load that succeeds, the artifact is read exactly once. A later press of the Predict
  button, after any runs in between, shows the card of the score that this handle
  gives, and what the storage holds for the artifact in the later runs (another model,
  or nothing) changes neither the runs nor the process state.
\<close>

theorem model_loaded_once:
  "cache p = None \<Longrightarrow> joblib_load e ''optimized_random_forest_model.joblib'' = Inr m \<Longrightarrow>
   session ((e, u) # rest) p =
     (script_body e u m # map (\<lambda>(e', u'). script_body e' u' m) rest,
      p\<lparr>cache := Some m, artifact_reads := artifact_reads p + 1\<rparr>) \<and>
   session ((e, u) # rest) process_start =
     (script_body e u m # map (\<lambda>(e', u'). script_body e' u' m) rest,
      \<lparr>cache = Some m, artifact_reads = 1\<rparr>) \<and>
   (menu u' = Predict \<and> button u' \<and> model_predict e' m (input_df (form u')) = Inr (y # ys) \<longrightarrow>
      session ((e, u) # rest @ [(e', u')]) process_start =
        (script_body e u m # map (\<lambda>(e', u'). script_body e' u' m) rest @
           [\<lparr>run_model = Inr m,
             run_out =
               [PageConfig ''Insurance Charge Predictor'', Style, SidebarRadio ''Navigation''] @
               predict_form @
               [Button ''Predict'', ResultCard (format_2f e' y),
                Footer ''Made with  using Streamlit''],
             run_uncaught = None\<rparr>],
         \<lparr>cache = Some m, artifact_reads = 1\<rparr>)) \<and>
   session ((e, u) # map (\<lambda>(e', u'). (e'\<lparr>joblib_load := j\<rparr>, u')) rest) p =
     session ((e, u) # rest) p"
proof (intro conjI impI)
  assume empty: "cache p = None"
    and loads: "joblib_load e ''optimized_random_forest_model.joblib'' = Inr m"
  show "session ((e, u) # rest) p =
      (script_body e u m # map (\<lambda>(e', u'). script_body e' u' m) rest,
       p\<lparr>cache := Some m, artifact_reads := artifact_reads p + 1\<rparr>)"
    using empty loads by (simp add: script_first_load session_cached)
  show "session ((e, u) # rest) process_start =
      (script_body e u m # map (\<lambda>(e', u'). script_body e' u' m) rest,
       \<lparr>cache = Some m, artifact_reads = 1\<rparr>)"
    using loads by (simp add: script_first_load session_cached process_start_def)
  show "session ((e, u) # rest @ [(e', u')]) process_start =
        (script_body e u m # map (\<lambda>(e', u'). script_body e' u' m) rest @
           [\<lparr>run_model = Inr m,
             run_out =
               [PageConfig ''Insurance Charge Predictor'', Style, SidebarRadio ''Navigation''] @
               predict_form @
               [Button ''Predict'', ResultCard (format_2f e' y),
                Footer ''Made with  using Streamlit''],
             run_uncaught = None\<rparr>],
         \<lparr>cache = Some m, artifact_reads = 1\<rparr>)"
    if pressed: "menu u' = Predict \<and> button u' \<and>
      model_predict e' m (input_df (form u')) = Inr (y # ys)"
  proof -
    have "script_body e' u' m =
        \<lparr>run_model = Inr m,
         run_out =
           [PageConfig ''Insurance Charge Predictor'', Style, SidebarRadio ''Navigation''] @
           predict_form @
           [Button ''Predict'', ResultCard (format_2f e' y),
            Footer ''Made with  using Streamlit''],
         run_uncaught = None\<rparr>"
      using pressed by (intro script_body_predict_pressed) simp_all
    then show ?thesis
      using loads by (simp add: script_first_load session_cached process_start_def)
  qed
  have "map (\<lambda>(e', u'). script_body e' u' m) (map (\<lambda>(e', u'). (e'\<lparr>joblib_load := j\<rparr>, u')) rest) =
      map (\<lambda>(e', u'). script_body e' u' m) rest"
    by (simp add: script_body_artifact_irrelevant case_prod_unfold)
  then show "session ((e, u) # map (\<lambda>(e', u'). (e'\<lparr>joblib_load := j\<rparr>, u')) rest) p =
      session ((e, u) # rest) p"
    using empty loads by (simp add: script_first_load session_cached)
qed

theorem model_loaded_once_witness:
  "session [(example_env, example_ui),
            (example_env\<lparr>joblib_load := (\<lambda>path. Inr 8)\<rparr>, example_ui\<lparr>menu := Analytics\<rparr>),
            (example_env\<lparr>joblib_load := (\<lambda>path. Inl FileNotFoundError)\<rparr>, example_ui)]
     process_start =
     ([script_body example_env example_ui 7,
       script_body (example_env\<lparr>joblib_load := (\<lambda>path. Inr 8)\<rparr>)
         (example_ui\<lparr>menu := Analytics\<rparr>) 7,
       \<lparr>run_model = Inr 7,
        run_out =
          [PageConfig ''Insurance Charge Predictor'', Style, SidebarRadio ''Navigation''] @
          predict_form @
          [Button ''Predict'', ResultCard ''10000.00'', Footer ''Made with  using Streamlit''],
        run_uncaught = None\<rparr>],
      \<lparr>cache = Some 7, artifact_reads = 1\<rparr>)"
  using model_loaded_once [of process_start example_env 7 example_ui
      "[(example_env\<lparr>joblib_load := (\<lambda>path. Inr 8)\<rparr>, example_ui\<lparr>menu := Analytics\<rparr>)]"
      "example_ui"
      "example_env\<lparr>joblib_load := (\<lambda>path. Inl FileNotFoundError)\<rparr>"
      "0x40C3880000000000" "[]" "\<lambda>path. Inr 8"]
  by (simp add: example_env_def example_ui_def process_start_def)

section \<open>The region offered by the form\<close>

text \<open>
  Claim C10. When the region is one of the options the Predict page's select box
  offers, the table the page builds has exactly one of the three region columns at 1;
  the all-zero encoding does not occur.
\<close>

theorem selectbox_region_one_hot:
  "region (form u) \<in> set region_options \<Longrightarrow>
   region_ones (pr_input_df (predict_page e model u)) = 1 \<and>
   region_flags (pr_input_df (predict_page e model u)) \<noteq>
     (Some [PyInt 0], Some [PyInt 0], Some [PyInt 0])"
  by (auto simp: pr_input_df_predict_page region_options_def region_ones_def region_flags_def
      column_def input_df_def flag_def)

theorem selectbox_region_one_hot_witness:
  "region (form example_ui) \<in> set region_options \<and>
   region_ones (pr_input_df (predict_page example_env 7 example_ui)) = 1"
  using selectbox_region_one_hot [of example_ui example_env 7]
  by (simp add: example_ui_def example_request_def region_options_def)

end
